theory Spec2Isabelle
  imports Main
begin

section \<open>Data model of \<^verbatim>\<open>omf/lineset.py\<close>\<close>

text \<open>
  A vertex is a triple of coordinates. The code never computes with a coordinate (it only
  counts and copies vertices), so the coordinate type is a parameter \<open>'c\<close>. A segment is a
  pair of vertex indices; Python integers are modelled by \<open>int\<close>.
\<close>

type_synonym 'c vertex = "'c \<times> 'c \<times> 'c"

type_synonym segment = "int \<times> int"

text \<open>
  The exceptions the code can raise: the Python class, and the message for the exceptions
  of the code itself and of numpy. The last three are raised inside the VTK library.
\<close>

datatype error =
  ValueError string | IndexError string | OverflowError | TypeError | AssertionError

text \<open>
  \<^verbatim>\<open>class LineSetGeometry\<close>: the two array properties. \<^verbatim>\<open>Vector3Array\<close> and
  \<^verbatim>\<open>Int2Array\<close> are declared in \<^verbatim>\<open>omf/data.py\<close>; they are taken as the ordered sequences
  of rows they hold.
\<close>

record 'c LineSetGeometry =
  vertices :: "'c vertex list"
  segments :: "segment list"

definition valid_locations :: "string list" where
  "valid_locations = [''vertices'', ''segments'']"

definition num_nodes :: "'c LineSetGeometry \<Rightarrow> nat" where
  "num_nodes self = length (vertices self)"

definition num_cells :: "'c LineSetGeometry \<Rightarrow> nat" where
  "num_cells self = length (segments self)"

definition location_length :: "'c LineSetGeometry \<Rightarrow> string \<Rightarrow> nat" where
  "location_length self loc =
     (if loc = ''segments'' then num_cells self else num_nodes self)"

subsection \<open>Validation\<close>

text \<open>
  \<^verbatim>\<open>np.min\<close> and \<^verbatim>\<open>np.max\<close> reduce over every entry of the two-column array, that
  is over the flattened rows. On an array without entries numpy raises \<^verbatim>\<open>ValueError\<close>.
\<close>

fun flatten :: "segment list \<Rightarrow> int list" where
  "flatten [] = []"
| "flatten (seg # segs) = fst seg # snd seg # flatten segs"

definition np_min :: "int list \<Rightarrow> error + int" where
  "np_min xs =
     (case xs of
        [] \<Rightarrow> Inl (ValueError
          ''zero-size array to reduction operation minimum which has no identity'')
      | x # ys \<Rightarrow> Inr (fold min ys x))"

definition np_max :: "int list \<Rightarrow> error + int" where
  "np_max xs =
     (case xs of
        [] \<Rightarrow> Inl (ValueError
          ''zero-size array to reduction operation maximum which has no identity'')
      | x # ys \<Rightarrow> Inr (fold max ys x))"

text \<open>\<^verbatim>\<open>LineSetGeometry._validate_mesh\<close>, lines 43 to 50.\<close>

definition validate_mesh :: "'c LineSetGeometry \<Rightarrow> error + bool" where
  "validate_mesh self =
     (case np_min (flatten (segments self)) of
        Inl e \<Rightarrow> Inl e
      | Inr lo \<Rightarrow>
          if lo < 0 then Inl (ValueError ''Segments may only have positive integers'')
          else
            (case np_max (flatten (segments self)) of
               Inl e \<Rightarrow> Inl e
             | Inr hi \<Rightarrow>
                 if hi \<ge> int (length (vertices self))
                 then Inl (ValueError ''Segments expects more vertices than provided'')
                 else Inr True))"

text \<open>The index condition the validator is meant to decide, one segment at a time.\<close>

definition index_ok :: "nat \<Rightarrow> int \<Rightarrow> bool" where
  "index_ok n i = (0 \<le> i \<and> i < int n)"

definition segment_ok :: "nat \<Rightarrow> segment \<Rightarrow> bool" where
  "segment_ok n seg = (index_ok n (fst seg) \<and> index_ok n (snd seg))"

definition indices_in_range :: "nat \<Rightarrow> segment list \<Rightarrow> bool" where
  "indices_in_range n segs = list_all (segment_ok n) segs"


section \<open>The element and its export, \<^verbatim>\<open>LineSetElement.toVTK\<close>\<close>

text \<open>
  What \<^verbatim>\<open>numpy_to_vtk\<close> distinguishes of the element type of a numpy array: a type for which
  \<^verbatim>\<open>get_vtk_array_type\<close> finds a VTK array type (the integer and floating-point types), a
  complex type, and any other type (strings, objects, dates).
\<close>

datatype dtype = vtk_typed | complexfloating | untyped

text \<open>
  An attribute of the element (\<^verbatim>\<open>ProjectElementData\<close> of \<^verbatim>\<open>omf/base.py\<close>): the export
  reads its \<^verbatim>\<open>name\<close> and the numpy array \<^verbatim>\<open>array.array\<close>, here the values \<open>array\<close> and
  their element type \<open>dtype\<close>; \<^verbatim>\<open>location\<close> is the tag that \<open>location_length\<close> interprets.
  The type of the values is a parameter \<open>'a\<close>.
\<close>

record 'a ProjectElementData =
  name :: string
  location :: string
  array :: "'a list"
  dtype :: dtype

record ('c, 'a) LineSetElement =
  geometry :: "'c LineSetGeometry"
  data :: "'a ProjectElementData list"
  subtype :: string

subsection \<open>The part of VTK that the export uses\<close>

text \<open>
  A data array is the \<^verbatim>\<open>vtkIntArray\<close> that the export fills itself or the array that a
  call of \<^verbatim>\<open>numpy_to_vtk\<close> returns for an attribute's values. A \<^verbatim>\<open>vtkPolyData\<close> is its
  points, its line cells (each \<^verbatim>\<open>vtkLine\<close> is its two point ids) and the named arrays of
  its cell data and point data, in the order of their indices. The entries of the
  \<^verbatim>\<open>vtkIntArray\<close> are taken as integers without a bound: a group id is at most the number
  of segments, so the 32 bits of the array are left only by a sequence of more than
  \<open>2^31\<close> segments. The vertices are an array of floating-point rows, which
  \<^verbatim>\<open>numpy_to_vtk\<close> converts (line 81).
\<close>

datatype 'a vtkDataArray = vtkIntArray "int list" | numpy_to_vtk "'a list"

type_synonym 'a vtkFieldData = "(string \<times> 'a vtkDataArray) list"

record ('c, 'a) vtkPolyData =
  Points :: "'c vertex list"
  Lines :: "segment list"
  CellData :: "'a vtkFieldData"
  PointData :: "'a vtkFieldData"

definition vtkPolyData_new :: "('c, 'a) vtkPolyData" where
  "vtkPolyData_new = \<lparr>Points = [], Lines = [], CellData = [], PointData = []\<rparr>"

text \<open>
  \<^verbatim>\<open>nps.numpy_to_vtk(num_array=arr)\<close>, line 106: an assertion of the function fails for
  a complex array, \<^verbatim>\<open>get_vtk_array_type\<close> raises \<^verbatim>\<open>TypeError\<close> for an array whose
  element type has no VTK array type, and any other array is converted with its values.
\<close>

definition nps_numpy_to_vtk :: "dtype \<Rightarrow> 'a list \<Rightarrow> error + 'a vtkDataArray" where
  "nps_numpy_to_vtk dt arr =
     (case dt of
        complexfloating \<Rightarrow> Inl AssertionError
      | untyped \<Rightarrow> Inl TypeError
      | vtk_typed \<Rightarrow> Inr (numpy_to_vtk arr))"

text \<open>
  \<^verbatim>\<open>vtkIdList.SetId\<close>, lines 89 and 90: a point id is a signed integer of 64 bits
  (\<^verbatim>\<open>vtkIdType\<close>); for a Python integer outside that range the call raises
  \<^verbatim>\<open>OverflowError\<close>. The result is the id stored.
\<close>

definition vtkIdType_ok :: "int \<Rightarrow> bool" where
  "vtkIdType_ok v = (- (2 ^ 63) \<le> v \<and> v < 2 ^ 63)"

definition SetId :: "int \<Rightarrow> error + int" where
  "SetId v = (if vtkIdType_ok v then Inr v else Inl OverflowError)"

text \<open>
  \<^verbatim>\<open>vtkFieldData::AddArray\<close>: an array whose name is already present replaces the array
  of that name at its index; any other array is appended.
\<close>

fun AddArray :: "'a vtkFieldData \<Rightarrow> string \<times> 'a vtkDataArray \<Rightarrow> 'a vtkFieldData" where
  "AddArray [] a = [a]"
| "AddArray (b # bs) a = (if fst b = fst a then a # bs else b # AddArray bs a)"


subsection \<open>The local variables of \<^verbatim>\<open>toVTK\<close>\<close>

text \<open>
  The method is modelled by explicit state passing. The state holds the object the method
  is called on (\<open>selfv\<close>, Python's \<^verbatim>\<open>self\<close>) and the method's local variables
  (\<open>outputv\<close> and \<open>lastv\<close> are Python's \<^verbatim>\<open>output\<close> and \<^verbatim>\<open>last\<close>). Every statement
  is an update of this state, so what the method leaves of \<^verbatim>\<open>self\<close> can be read off the
  final state.
\<close>

record ('c, 'a) toVTK_frame =
  selfv :: "('c, 'a) LineSetElement"
  outputv :: "('c, 'a) vtkPolyData"
  cells :: "segment list"
  pts :: "'c vertex list"
  indexArr :: "int list"
  lastv :: int
  segi :: int

text \<open>
  A \<^verbatim>\<open>for\<close> loop whose body may raise: the body runs for the items in their order, and
  the first exception ends the loop.
\<close>

fun for_loop :: "('i \<Rightarrow> 's \<Rightarrow> error + 's) \<Rightarrow> 'i list \<Rightarrow> 's \<Rightarrow> error + 's" where
  "for_loop body [] s = Inr s"
| "for_loop body (i # is) s =
     (case body i s of Inl e \<Rightarrow> Inl e | Inr s' \<Rightarrow> for_loop body is s')"

text \<open>
  Lines 70 to 84, given the first segment. \<^verbatim>\<open>SetNumberOfValues\<close> allocates
  \<open>num_cells\<close> entries without initialising them; they are written as 0 here, and the loop
  overwrites every one of them.
\<close>

definition init_frame :: "('c, 'a) LineSetElement \<Rightarrow> segment \<Rightarrow> ('c, 'a) toVTK_frame" where
  "init_frame self seg0 =
     \<lparr>selfv = self,
      outputv = vtkPolyData_new,
      cells = [],
      pts = vertices (geometry self),
      indexArr = replicate (num_cells (geometry self)) 0,
      lastv = fst seg0,
      segi = 0\<rparr>"

text \<open>
  The body of the loop of lines 85 to 96, for the index \<open>i\<close>: the two calls of
  \<^verbatim>\<open>SetId\<close> come first, and an exception of either leaves the loop before the cell is
  inserted and before a group id is written.
\<close>

definition segment_step ::
  "nat \<Rightarrow> ('c, 'a) toVTK_frame \<Rightarrow> error + ('c, 'a) toVTK_frame" where
  "segment_step i s =
     (let seg = segments (geometry (selfv s)) ! i in
      case SetId (fst seg) of
        Inl e \<Rightarrow> Inl e
      | Inr id0 \<Rightarrow>
          (case SetId (snd seg) of
             Inl e \<Rightarrow> Inl e
           | Inr id1 \<Rightarrow>
               (let s1 = s\<lparr>cells := cells s @ [(id0, id1)]\<rparr>;
                    s2 = (if fst seg \<noteq> lastv s1 then s1\<lparr>segi := segi s1 + 1\<rparr> else s1);
                    s3 = s2\<lparr>lastv := snd seg\<rparr>
                in Inr (s3\<lparr>indexArr := (indexArr s3)[i := segi s3]\<rparr>))))"

text \<open>
  The segment-grouping pass, lines 83 to 96: reading \<^verbatim>\<open>segments[0]\<close> of a sequence
  without segments raises \<^verbatim>\<open>IndexError\<close>; otherwise the loop runs over
  \<^verbatim>\<open>range(len(segments))\<close>, where every \<^verbatim>\<open>segments[i]\<close> and every
  \<^verbatim>\<open>SetValue(i, segi)\<close> is in range.
\<close>

definition group_segments :: "('c, 'a) LineSetElement \<Rightarrow> error + ('c, 'a) toVTK_frame" where
  "group_segments self =
     (case segments (geometry self) of
        [] \<Rightarrow> Inl (IndexError ''index 0 is out of bounds for axis 0 with size 0'')
      | seg0 # _ \<Rightarrow>
          for_loop segment_step [0..<length (segments (geometry self))]
            (init_frame self seg0))"

text \<open>Lines 99 to 101: the points, the line cells and the array of group ids.\<close>

definition generate_output :: "('c, 'a) toVTK_frame \<Rightarrow> ('c, 'a) toVTK_frame" where
  "generate_output s =
     (let s1 = s\<lparr>outputv := (outputv s)\<lparr>Points := pts s\<rparr>\<rparr>;
          s2 = s1\<lparr>outputv := (outputv s1)\<lparr>Lines := cells s1\<rparr>\<rparr>
      in s2\<lparr>outputv := (outputv s2)
            \<lparr>CellData := AddArray (CellData (outputv s2))
               (''Line Index'', vtkIntArray (indexArr s2))\<rparr>\<rparr>)"

text \<open>
  The body of the loop of lines 104 to 108, for the attribute \<open>d\<close>: the conversion comes
  first, and its exception leaves the loop.
\<close>

definition data_step ::
  "'a ProjectElementData \<Rightarrow> ('c, 'a) toVTK_frame \<Rightarrow> error + ('c, 'a) toVTK_frame" where
  "data_step d s =
     (case nps_numpy_to_vtk (dtype d) (array d) of
        Inl e \<Rightarrow> Inl e
      | Inr c \<Rightarrow>
          Inr (s\<lparr>outputv := (outputv s)
                 \<lparr>CellData := AddArray (CellData (outputv s)) (name d, c)\<rparr>\<rparr>))"

text \<open>
  \<^verbatim>\<open>LineSetElement.toVTK\<close>. The result is the returned mesh or the exception raised,
  together with the element as the call leaves it.
\<close>

definition toVTK ::
  "('c, 'a) LineSetElement \<Rightarrow> (error + ('c, 'a) vtkPolyData) \<times> ('c, 'a) LineSetElement" where
  "toVTK self =
     (case group_segments self of
        Inl e \<Rightarrow> (Inl e, self)
      | Inr s \<Rightarrow>
          (let s1 = generate_output s in
           case for_loop data_step (data (selfv s1)) s1 of
             Inl e \<Rightarrow> (Inl e, selfv s1)
           | Inr s2 \<Rightarrow> (Inr (outputv s2), selfv s2)))"

text \<open>
  The group ids that the loop assigns, as a recursion over the segments still to visit:
  \<open>lst\<close> is the current \<^verbatim>\<open>last\<close> and \<open>g\<close> the current \<^verbatim>\<open>segi\<close>.
\<close>

fun group_ids :: "int \<Rightarrow> int \<Rightarrow> segment list \<Rightarrow> int list" where
  "group_ids lst g [] = []"
| "group_ids lst g (seg # segs) =
     (let g' = (if fst seg \<noteq> lst then g + 1 else g) in g' # group_ids (snd seg) g' segs)"

text \<open>Whether the two indices of a segment are point ids that \<^verbatim>\<open>SetId\<close> takes.\<close>

definition segment_ids_ok :: "segment \<Rightarrow> bool" where
  "segment_ids_ok seg = (vtkIdType_ok (fst seg) \<and> vtkIdType_ok (snd seg))"

section \<open>Example elements\<close>

text \<open>Four vertices and two segments that do not touch: two polylines, no attribute.\<close>

definition two_lines :: "(int, int) LineSetElement" where
  "two_lines =
     \<lparr>geometry = \<lparr>vertices = [(0, 0, 0), (1, 0, 0), (5, 5, 5), (6, 5, 5)],
                  segments = [(0, 1), (2, 3)]\<rparr>,
      data = [], subtype = ''line''\<rparr>"

text \<open>One vertex and no segment.\<close>

definition no_segments :: "(int, int) LineSetElement" where
  "no_segments =
     \<lparr>geometry = \<lparr>vertices = [(0, 0, 0)], segments = []\<rparr>, data = [], subtype = ''line''\<rparr>"


text \<open>A chain of two segments with an attribute located on its three vertices.\<close>

definition vertex_attribute :: "(int, int) LineSetElement" where
  "vertex_attribute =
     \<lparr>geometry = \<lparr>vertices = [(0, 0, 0), (1, 0, 0), (2, 0, 0)], segments = [(0, 1), (1, 2)]\<rparr>,
      data = [\<lparr>name = ''elevation'', location = ''vertices'', array = [10, 20, 30],
               dtype = vtk_typed\<rparr>],
      subtype = ''line''\<rparr>"

text \<open>
  The same chain with an attribute located on the segments that has three values for two
  segments, and with an attribute of two values.
\<close>

definition long_attribute :: "(int, int) LineSetElement" where
  "long_attribute =
     \<lparr>geometry = \<lparr>vertices = [(0, 0, 0), (1, 0, 0), (2, 0, 0)], segments = [(0, 1), (1, 2)]\<rparr>,
      data = [\<lparr>name = ''grade'', location = ''segments'', array = [4, 5, 6],
               dtype = vtk_typed\<rparr>],
      subtype = ''line''\<rparr>"

definition fitting_attribute :: "(int, int) LineSetElement" where
  "fitting_attribute =
     \<lparr>geometry = \<lparr>vertices = [(0, 0, 0), (1, 0, 0), (2, 0, 0)], segments = [(0, 1), (1, 2)]\<rparr>,
      data = [\<lparr>name = ''grade'', location = ''segments'', array = [4, 5],
               dtype = vtk_typed\<rparr>],
      subtype = ''line''\<rparr>"



section \<open>Properties of the geometry\<close>

lemma set_flatten: "set (flatten segs) = fst ` set segs \<union> snd ` set segs"
  by (induction segs) auto

lemma flatten_eq_Nil: "flatten segs = [] \<longleftrightarrow> segs = []"
  by (cases segs) simp_all

lemma np_min_Cons: "np_min (x # ys) = Inr (Min (set (x # ys)))"
  unfolding np_min_def by (simp only: list.case Min.set_eq_fold)

lemma np_max_Cons: "np_max (x # ys) = Inr (Max (set (x # ys)))"
  unfolding np_max_def by (simp only: list.case Max.set_eq_fold)

lemma np_min_nonempty: "xs \<noteq> [] \<Longrightarrow> np_min xs = Inr (Min (set xs))"
  using np_min_Cons by (cases xs) blast+

lemma np_max_nonempty: "xs \<noteq> [] \<Longrightarrow> np_max xs = Inr (Max (set xs))"
  using np_max_Cons by (cases xs) blast+

lemma indices_in_range_iff:
  "indices_in_range n segs \<longleftrightarrow> (\<forall>i \<in> set (flatten segs). 0 \<le> i \<and> i < int n)"
  by (induction segs) (auto simp: indices_in_range_def segment_ok_def index_ok_def)

lemma validate_mesh_nonempty:
  assumes "segments self \<noteq> []"
  shows "validate_mesh self =
     (if Min (set (flatten (segments self))) < 0
      then Inl (ValueError ''Segments may only have positive integers'')
      else if Max (set (flatten (segments self))) \<ge> int (length (vertices self))
      then Inl (ValueError ''Segments expects more vertices than provided'')
      else Inr True)"
proof -
  from assms have ne: "flatten (segments self) \<noteq> []"
    by (simp add: flatten_eq_Nil)
  show ?thesis
    unfolding validate_mesh_def by (simp add: np_min_nonempty [OF ne] np_max_nonempty [OF ne])
qed

lemma validate_mesh_empty:
  "segments self = [] \<Longrightarrow> validate_mesh self = Inl (ValueError
     ''zero-size array to reduction operation minimum which has no identity'')"
  by (simp add: validate_mesh_def np_min_def)

text \<open>
  C7: \<open>num_nodes\<close> is the length of the vertex sequence, \<open>num_cells\<close> the length of the
  segment sequence, and \<open>location_length\<close> returns \<open>num_cells\<close> for the location
  \<open>segments\<close> and \<open>num_nodes\<close> for any other location. This holds for every geometry,
  validated or not.
\<close>

theorem C7_counts_and_location_length:
  "num_nodes self = length (vertices self)
   \<and> num_cells self = length (segments self)
   \<and> location_length self loc = (if loc = ''segments'' then num_cells self else num_nodes self)
   \<and> location_length self ''segments'' = length (segments self)
   \<and> location_length self ''vertices'' = length (vertices self)"
  by (simp add: num_nodes_def num_cells_def location_length_def)

lemma validate_mesh_accepts_iff:
  assumes "segments g \<noteq> []"
  shows "validate_mesh g = Inr True \<longleftrightarrow> indices_in_range (num_nodes g) (segments g)"
proof -
  let ?xs = "flatten (segments g)"
  from assms have ne: "set ?xs \<noteq> {}" by (simp add: flatten_eq_Nil)
  have fin: "finite (set ?xs)" by simp
  have lo: "\<not> Min (set ?xs) < 0 \<longleftrightarrow> (\<forall>i \<in> set ?xs. 0 \<le> i)"
    using Min_ge_iff [OF fin ne, of 0] by (simp add: not_less)
  have hi: "\<not> int (length (vertices g)) \<le> Max (set ?xs)
      \<longleftrightarrow> (\<forall>i \<in> set ?xs. i < int (length (vertices g)))"
    using Max_less_iff [OF fin ne, of "int (length (vertices g))"] by (simp add: not_le)
  show ?thesis
    unfolding validate_mesh_nonempty [OF assms] indices_in_range_iff num_nodes_def
    using lo hi by auto
qed

text \<open>
  C5, amended: for a segment sequence that is not empty, validation accepts if and only if
  every segment index lies in \<open>[0, num_nodes)\<close>, and it raises \<^verbatim>\<open>ValueError\<close> (the code's
  error for an invalid geometry, with one of its two messages) if and only if some index is
  negative or at least \<open>num_nodes\<close>.
\<close>

theorem C5_validation_nonempty:
  assumes "segments g \<noteq> []"
  shows "(validate_mesh g = Inr True \<longleftrightarrow>
            (\<forall>seg \<in> set (segments g).
               0 \<le> fst seg \<and> fst seg < int (num_nodes g)
               \<and> 0 \<le> snd seg \<and> snd seg < int (num_nodes g)))
       \<and> ((\<exists>msg. validate_mesh g = Inl (ValueError msg)) \<longleftrightarrow>
            (\<exists>seg \<in> set (segments g).
               fst seg < 0 \<or> snd seg < 0
               \<or> int (num_nodes g) \<le> fst seg \<or> int (num_nodes g) \<le> snd seg))
       \<and> (\<forall>e. validate_mesh g = Inl e \<longrightarrow>
             e = ValueError ''Segments may only have positive integers''
             \<or> e = ValueError ''Segments expects more vertices than provided'')"
proof -
  have acc: "validate_mesh g = Inr True \<longleftrightarrow>
      (\<forall>seg \<in> set (segments g).
         0 \<le> fst seg \<and> fst seg < int (num_nodes g) \<and> 0 \<le> snd seg \<and> snd seg < int (num_nodes g))"
    unfolding validate_mesh_accepts_iff [OF assms]
    by (auto simp: indices_in_range_def list_all_iff segment_ok_def index_ok_def)
  have errs: "validate_mesh g = Inl e \<Longrightarrow>
      e = ValueError ''Segments may only have positive integers''
      \<or> e = ValueError ''Segments expects more vertices than provided''" for e
    unfolding validate_mesh_nonempty [OF assms] by (auto split: if_splits)
  have rej: "(\<exists>msg. validate_mesh g = Inl (ValueError msg)) \<longleftrightarrow> validate_mesh g \<noteq> Inr True"
    unfolding validate_mesh_nonempty [OF assms] by auto
  show ?thesis
    unfolding rej using acc errs by (auto simp: not_le not_less)
qed

theorem C5_validation_nonempty_witness:
  "segments (geometry two_lines) \<noteq> []
   \<and> validate_mesh (geometry two_lines) = Inr True
   \<and> \<not> (\<exists>msg. validate_mesh (geometry two_lines) = Inl (ValueError msg))"
  using C5_validation_nonempty [of "geometry two_lines"]
  by (simp add: two_lines_def num_nodes_def)

text \<open>
  C5 as stated fails for a geometry without segments: every index of the (empty) segment
  sequence is in range, and validation does not accept.
\<close>

theorem C5_empty_counterexample:
  "indices_in_range (num_nodes \<lparr>vertices = [(0::int, 0, 0)], segments = []\<rparr>)
     (segments \<lparr>vertices = [(0::int, 0, 0)], segments = []\<rparr>)
   \<and> validate_mesh \<lparr>vertices = [(0::int, 0, 0)], segments = []\<rparr> \<noteq> Inr True"
  by (simp add: indices_in_range_def validate_mesh_def np_min_def)

text \<open>
  C8: two geometries with the same number of vertices and the same segment sequence get the
  same validation outcome, accepted or the same error, whatever their coordinates are (the
  two geometries may even have different coordinate types).
\<close>

theorem C8_validation_depends_on_counts:
  fixes g1 :: "'c LineSetGeometry" and g2 :: "'d LineSetGeometry"
  assumes "length (vertices g1) = length (vertices g2)" and "segments g1 = segments g2"
  shows "validate_mesh g1 = validate_mesh g2"
  unfolding validate_mesh_def assms by (rule refl)

theorem C8_validation_depends_on_counts_witness:
  "length (vertices \<lparr>vertices = [(0::int, 0, 0), (1, 0, 0)], segments = [(0, 1)]\<rparr>)
     = length (vertices \<lparr>vertices = [(True, False, True), (False, False, True)], segments = [(0, 1)]\<rparr>)
   \<and> segments \<lparr>vertices = [(0::int, 0, 0), (1, 0, 0)], segments = [(0, 1)]\<rparr>
     = segments \<lparr>vertices = [(True, False, True), (False, False, True)], segments = [(0, 1)]\<rparr>
   \<and> validate_mesh \<lparr>vertices = [(0::int, 0, 0), (1, 0, 0)], segments = [(0, 1)]\<rparr>
     = validate_mesh \<lparr>vertices = [(True, False, True), (False, False, True)], segments = [(0, 1)]\<rparr>"
  using C8_validation_depends_on_counts
    [of "\<lparr>vertices = [(0::int, 0, 0), (1, 0, 0)], segments = [(0, 1)]\<rparr>"
        "\<lparr>vertices = [(True, False, True), (False, False, True)], segments = [(0, 1)]\<rparr>"]
  by simp

text \<open>
  C10: validating a geometry whose segment sequence is empty raises an error (the
  \<^verbatim>\<open>ValueError\<close> of \<^verbatim>\<open>np.min\<close> on an array without entries), so it never returns: no
  geometry without segments passes validation.
\<close>

theorem C10_empty_segments_rejected:
  assumes "segments g = []"
  shows "(\<exists>msg. validate_mesh g = Inl (ValueError msg)) \<and> (\<forall>b. validate_mesh g \<noteq> Inr b)"
  using assms by (simp add: validate_mesh_empty)

theorem C10_empty_segments_rejected_witness:
  "segments \<lparr>vertices = [(0::int, 0, 0)], segments = []\<rparr> = []
   \<and> (\<exists>msg. validate_mesh \<lparr>vertices = [(0::int, 0, 0)], segments = []\<rparr> = Inl (ValueError msg))
   \<and> validate_mesh \<lparr>vertices = [(0::int, 0, 0)], segments = []\<rparr> \<noteq> Inr True"
  using C10_empty_segments_rejected [of "\<lparr>vertices = [(0::int, 0, 0)], segments = []\<rparr>"]
  by simp

section \<open>The segment-grouping pass\<close>

lemma segment_step_ok:
  assumes "segment_ids_ok (segments (geometry (selfv s)) ! i)"
  shows "\<exists>s'. segment_step i s = Inr s'
    \<and> selfv s' = selfv s
    \<and> outputv s' = outputv s
    \<and> pts s' = pts s
    \<and> cells s' = cells s @ [segments (geometry (selfv s)) ! i]
    \<and> lastv s' = snd (segments (geometry (selfv s)) ! i)
    \<and> segi s' =
        (if fst (segments (geometry (selfv s)) ! i) \<noteq> lastv s then segi s + 1 else segi s)
    \<and> indexArr s' = (indexArr s)[i := segi s']"
  using assms by (simp add: segment_step_def segment_ids_ok_def SetId_def Let_def)

lemma segment_step_overflow:
  assumes "\<not> segment_ids_ok (segments (geometry (selfv s)) ! i)"
  shows "segment_step i s = Inl OverflowError"
  using assms by (auto simp: segment_step_def segment_ids_ok_def SetId_def Let_def)

lemma for_loop_segment_step:
  assumes "k \<le> n" and "n = length (segments (geometry (selfv s)))"
    and "length (indexArr s) = n"
    and "list_all segment_ids_ok (drop k (segments (geometry (selfv s))))"
  shows "\<exists>s'. for_loop segment_step [k..<n] s = Inr s'
    \<and> selfv s' = selfv s
    \<and> outputv s' = outputv s
    \<and> pts s' = pts s
    \<and> cells s' = cells s @ drop k (segments (geometry (selfv s)))
    \<and> indexArr s' =
        take k (indexArr s) @ group_ids (lastv s) (segi s) (drop k (segments (geometry (selfv s))))"
  using assms
proof (induction "n - k" arbitrary: k s)
  case 0
  then show ?case by simp
next
  case (Suc d)
  then have kn: "k < n" by simp
  let ?segs = "segments (geometry (selfv s))"
  have dr: "drop k ?segs = ?segs ! k # drop (Suc k) ?segs"
    using kn Suc.prems(2) by (simp add: Cons_nth_drop_Suc)
  from Suc.prems(4) have ok: "segment_ids_ok (?segs ! k)"
    and rest: "list_all segment_ids_ok (drop (Suc k) ?segs)"
    unfolding dr by simp_all
  from segment_step_ok [OF ok] obtain t where
    t: "segment_step k s = Inr t" "selfv t = selfv s" "outputv t = outputv s" "pts t = pts s"
      "cells t = cells s @ [?segs ! k]" "lastv t = snd (?segs ! k)"
      "segi t = (if fst (?segs ! k) \<noteq> lastv s then segi s + 1 else segi s)"
      "indexArr t = (indexArr s)[k := segi t]"
    by blast
  have "\<exists>s'. for_loop segment_step [Suc k..<n] t = Inr s'
    \<and> selfv s' = selfv t
    \<and> outputv s' = outputv t
    \<and> pts s' = pts t
    \<and> cells s' = cells t @ drop (Suc k) (segments (geometry (selfv t)))
    \<and> indexArr s' =
        take (Suc k) (indexArr t)
        @ group_ids (lastv t) (segi t) (drop (Suc k) (segments (geometry (selfv t))))"
    using Suc.prems Suc.hyps(2) kn rest
    by (intro Suc.hyps(1)) (simp_all add: t(2,8))
  then obtain s' where
    s': "for_loop segment_step [Suc k..<n] t = Inr s'" "selfv s' = selfv t"
      "outputv s' = outputv t" "pts s' = pts t"
      "cells s' = cells t @ drop (Suc k) (segments (geometry (selfv t)))"
      "indexArr s' =
        take (Suc k) (indexArr t)
        @ group_ids (lastv t) (segi t) (drop (Suc k) (segments (geometry (selfv t))))"
    by blast
  have tk: "take (Suc k) (indexArr t) = take k (indexArr s) @ [segi t]"
    using kn Suc.prems(3) by (simp add: t(8) take_Suc_conv_app_nth)
  have up: "[k..<n] = k # [Suc k..<n]"
    using kn by (simp add: upt_conv_Cons)
  have gi: "group_ids (lastv s) (segi s) (drop k ?segs)
      = segi t # group_ids (lastv t) (segi t) (drop (Suc k) ?segs)"
    unfolding dr by (simp add: Let_def t(6,7))
  have "for_loop segment_step [k..<n] s = Inr s'"
    unfolding up by (simp add: t(1) s'(1))
  moreover have "cells s' = cells s @ drop k ?segs"
    unfolding s'(5) t(2,5) dr [symmetric] by (simp add: dr)
  moreover have "indexArr s' = take k (indexArr s) @ group_ids (lastv s) (segi s) (drop k ?segs)"
    unfolding s'(6) tk gi t(2) by simp
  ultimately show ?case
    using s'(2,3,4) t(2,3,4) by simp
qed

lemma for_loop_segment_step_overflow:
  assumes "k \<le> n" and "n = length (segments (geometry (selfv s)))"
    and "\<not> list_all segment_ids_ok (drop k (segments (geometry (selfv s))))"
  shows "for_loop segment_step [k..<n] s = Inl OverflowError"
  using assms
proof (induction "n - k" arbitrary: k s)
  case 0
  then show ?case by simp
next
  case (Suc d)
  then have kn: "k < n" by simp
  let ?segs = "segments (geometry (selfv s))"
  have dr: "drop k ?segs = ?segs ! k # drop (Suc k) ?segs"
    using kn Suc.prems(2) by (simp add: Cons_nth_drop_Suc)
  have up: "[k..<n] = k # [Suc k..<n]"
    using kn by (simp add: upt_conv_Cons)
  show ?case
  proof (cases "segment_ids_ok (?segs ! k)")
    case False
    then show ?thesis
      unfolding up by (simp add: segment_step_overflow)
  next
    case True
    from segment_step_ok [OF True] obtain t where
      t: "segment_step k s = Inr t" "selfv t = selfv s"
      by blast
    from True Suc.prems(3) have "\<not> list_all segment_ids_ok (drop (Suc k) ?segs)"
      unfolding dr by simp
    with Suc.prems Suc.hyps(2) kn
    have "for_loop segment_step [Suc k..<n] t = Inl OverflowError"
      by (intro Suc.hyps(1)) (simp_all add: t(2))
    then show ?thesis
      unfolding up by (simp add: t(1))
  qed
qed

lemma group_segments_empty:
  "segments (geometry self) = [] \<Longrightarrow>
   group_segments self = Inl (IndexError ''index 0 is out of bounds for axis 0 with size 0'')"
  by (simp add: group_segments_def)

lemma init_frame_simps:
  "selfv (init_frame self seg0) = self"
  "outputv (init_frame self seg0) = vtkPolyData_new"
  "pts (init_frame self seg0) = vertices (geometry self)"
  "cells (init_frame self seg0) = []"
  "lastv (init_frame self seg0) = fst seg0"
  "segi (init_frame self seg0) = 0"
  "length (indexArr (init_frame self seg0)) = length (segments (geometry self))"
  by (simp_all add: init_frame_def num_cells_def)

lemma group_segments_nonempty:
  assumes "segments (geometry self) \<noteq> []"
    and "list_all segment_ids_ok (segments (geometry self))"
  shows "\<exists>s. group_segments self = Inr s
    \<and> selfv s = self
    \<and> outputv s = vtkPolyData_new
    \<and> pts s = vertices (geometry self)
    \<and> cells s = segments (geometry self)
    \<and> indexArr s = group_ids (fst (hd (segments (geometry self)))) 0 (segments (geometry self))"
proof -
  from assms(1) obtain seg0 rest where sg: "segments (geometry self) = seg0 # rest"
    by (cases "segments (geometry self)") auto
  let ?n = "length (segments (geometry self))"
  let ?s0 = "init_frame self seg0"
  have gs: "group_segments self = for_loop segment_step [0..<?n] ?s0"
    by (simp add: group_segments_def sg)
  have "0 \<le> ?n" "?n = length (segments (geometry (selfv ?s0)))"
    "length (indexArr ?s0) = ?n"
    "list_all segment_ids_ok (drop 0 (segments (geometry (selfv ?s0))))"
    using assms(2) by (simp_all add: init_frame_simps)
  from for_loop_segment_step [OF this] show ?thesis
    unfolding gs by (simp add: init_frame_simps sg)
qed

lemma group_segments_overflow:
  assumes "segments (geometry self) \<noteq> []"
    and "\<not> list_all segment_ids_ok (segments (geometry self))"
  shows "group_segments self = Inl OverflowError"
proof -
  from assms(1) obtain seg0 rest where sg: "segments (geometry self) = seg0 # rest"
    by (cases "segments (geometry self)") auto
  let ?n = "length (segments (geometry self))"
  let ?s0 = "init_frame self seg0"
  have gs: "group_segments self = for_loop segment_step [0..<?n] ?s0"
    by (simp add: group_segments_def sg)
  have "0 \<le> ?n" "?n = length (segments (geometry (selfv ?s0)))"
    "\<not> list_all segment_ids_ok (drop 0 (segments (geometry (selfv ?s0))))"
    using assms(2) by (simp_all add: init_frame_simps)
  from for_loop_segment_step_overflow [OF this] show ?thesis
    unfolding gs .
qed









section \<open>The export\<close>

lemma generate_output_simps:
  "selfv (generate_output s) = selfv s"
  "outputv (generate_output s) =
     (outputv s)\<lparr>Points := pts s, Lines := cells s,
        CellData := AddArray (CellData (outputv s)) (''Line Index'', vtkIntArray (indexArr s))\<rparr>"
  by (simp_all add: generate_output_def Let_def)

lemma data_step_cases:
  "dtype d = vtk_typed
     \<and> data_step d s = Inr (s\<lparr>outputv := (outputv s)
         \<lparr>CellData := AddArray (CellData (outputv s)) (name d, numpy_to_vtk (array d))\<rparr>\<rparr>)
   \<or> dtype d = complexfloating \<and> data_step d s = Inl AssertionError
   \<or> dtype d = untyped \<and> data_step d s = Inl TypeError"
  by (cases "dtype d") (simp_all add: data_step_def nps_numpy_to_vtk_def)

lemma for_loop_data_step_Inr:
  "for_loop data_step ds s = Inr s' \<Longrightarrow>
   selfv s' = selfv s
   \<and> Points (outputv s') = Points (outputv s)
   \<and> Lines (outputv s') = Lines (outputv s)
   \<and> PointData (outputv s') = PointData (outputv s)
   \<and> CellData (outputv s') =
       fold (\<lambda>d fd. AddArray fd (name d, numpy_to_vtk (array d))) ds (CellData (outputv s))"
proof (induction ds arbitrary: s)
  case Nil
  then show ?case by simp
next
  case (Cons d ds)
  from data_step_cases [of d s] Cons.prems obtain t where
    t: "data_step d s = Inr t"
      "t = s\<lparr>outputv := (outputv s)
         \<lparr>CellData := AddArray (CellData (outputv s)) (name d, numpy_to_vtk (array d))\<rparr>\<rparr>"
    by auto
  with Cons.prems have "for_loop data_step ds t = Inr s'" by simp
  from Cons.IH [OF this] show ?case
    by (simp add: t(2))
qed


lemma for_loop_data_step_outcome:
  "map dtype ds' = map dtype ds \<Longrightarrow>
   for_loop data_step ds' s' = Inl e \<longleftrightarrow> for_loop data_step ds s = Inl e"
proof (induction ds arbitrary: ds' s s')
  case Nil
  then show ?case by simp
next
  case (Cons d ds)
  then obtain d' ds'' where ds': "ds' = d' # ds''" "dtype d' = dtype d"
    "map dtype ds'' = map dtype ds"
    by (cases ds') auto
  show ?case
  proof (cases "dtype d = vtk_typed")
    case True
    with data_step_cases [of d s] data_step_cases [of d' s'] ds'(2)
    obtain t t' where "data_step d s = Inr t" "data_step d' s' = Inr t'"
      by auto
    with Cons.IH [OF ds'(3), of t' t] show ?thesis
      by (simp add: ds'(1))
  next
    case False
    with data_step_cases [of d s] data_step_cases [of d' s'] ds'(2)
    obtain x where "data_step d s = Inl x" "data_step d' s' = Inl x"
      by auto
    then show ?thesis
      by (simp add: ds'(1))
  qed
qed



lemma toVTK_empty:
  "segments (geometry self) = [] \<Longrightarrow>
   toVTK self = (Inl (IndexError ''index 0 is out of bounds for axis 0 with size 0''), self)"
  by (simp add: toVTK_def group_segments_empty)

lemma toVTK_overflow:
  "segments (geometry self) \<noteq> [] \<Longrightarrow> \<not> list_all segment_ids_ok (segments (geometry self)) \<Longrightarrow>
   toVTK self = (Inl OverflowError, self)"
  by (simp add: toVTK_def group_segments_overflow)

lemma toVTK_data_loop:
  assumes "segments (geometry self) \<noteq> []"
    and "list_all segment_ids_ok (segments (geometry self))"
  shows "\<exists>s. group_segments self = Inr s
    \<and> selfv (generate_output s) = self
    \<and> Points (outputv (generate_output s)) = vertices (geometry self)
    \<and> Lines (outputv (generate_output s)) = segments (geometry self)
    \<and> PointData (outputv (generate_output s)) = []
    \<and> CellData (outputv (generate_output s)) = [(''Line Index'', vtkIntArray (indexArr s))]
    \<and> toVTK self =
        (case for_loop data_step (data self) (generate_output s) of
           Inl e \<Rightarrow> (Inl e, self)
         | Inr s2 \<Rightarrow> (Inr (outputv s2), selfv s2))"
proof -
  from group_segments_nonempty [OF assms] obtain s where
    s: "group_segments self = Inr s" "selfv s = self" "outputv s = vtkPolyData_new"
       "pts s = vertices (geometry self)" "cells s = segments (geometry self)"
    by blast
  have "toVTK self =
        (case for_loop data_step (data self) (generate_output s) of
           Inl e \<Rightarrow> (Inl e, self)
         | Inr s2 \<Rightarrow> (Inr (outputv s2), selfv s2))"
    by (simp add: toVTK_def s(1) Let_def generate_output_simps(1) s(2) split: sum.splits)
  then show ?thesis
    using s by (simp add: generate_output_simps vtkPolyData_new_def)
qed


lemma snd_toVTK: "snd (toVTK self) = self"
proof (cases "segments (geometry self) = []")
  case True
  then show ?thesis by (simp add: toVTK_empty)
next
  case ne: False
  show ?thesis
  proof (cases "list_all segment_ids_ok (segments (geometry self))")
    case False
    with ne show ?thesis by (simp add: toVTK_overflow)
  next
    case True
    from toVTK_data_loop [OF ne True] obtain s where
      s: "selfv (generate_output s) = self"
        "toVTK self =
          (case for_loop data_step (data self) (generate_output s) of
             Inl e \<Rightarrow> (Inl e, self)
           | Inr s2 \<Rightarrow> (Inr (outputv s2), selfv s2))"
      by blast
    show ?thesis
    proof (cases "for_loop data_step (data self) (generate_output s)")
      case (Inl e)
      then show ?thesis by (simp add: s(2))
    next
      case (Inr s2)
      from for_loop_data_step_Inr [OF Inr] show ?thesis
        by (simp add: s Inr)
    qed
  qed
qed

lemma toVTK_outcome:
  assumes "segments (geometry self') = segments (geometry self)"
    and "map dtype (data self') = map dtype (data self)"
  shows "fst (toVTK self') = Inl e \<longleftrightarrow> fst (toVTK self) = Inl e"
proof (cases "segments (geometry self) = []")
  case True
  with assms(1) show ?thesis by (simp add: toVTK_empty)
next
  case ne: False
  with assms(1) have ne': "segments (geometry self') \<noteq> []" by simp
  show ?thesis
  proof (cases "list_all segment_ids_ok (segments (geometry self))")
    case False
    with ne ne' assms(1) show ?thesis by (simp add: toVTK_overflow)
  next
    case True
    with assms(1) have ok': "list_all segment_ids_ok (segments (geometry self'))" by simp
    from toVTK_data_loop [OF ne True] obtain s where
      s: "toVTK self =
          (case for_loop data_step (data self) (generate_output s) of
             Inl e \<Rightarrow> (Inl e, self)
           | Inr s2 \<Rightarrow> (Inr (outputv s2), selfv s2))"
      by blast
    from toVTK_data_loop [OF ne' ok'] obtain s' where
      s': "toVTK self' =
          (case for_loop data_step (data self') (generate_output s') of
             Inl e \<Rightarrow> (Inl e, self')
           | Inr s2 \<Rightarrow> (Inr (outputv s2), selfv s2))"
      by blast
    from for_loop_data_step_outcome [OF assms(2), of "generate_output s'" e "generate_output s"]
    show ?thesis
      unfolding s s' by (auto split: sum.splits)
  qed
qed

text \<open>
  C2, amended: if the segment sequence has zero length, the grouping pass fails, and with it
  the export, which returns no mesh. The exception is the \<^verbatim>\<open>IndexError\<close> that reading
  \<^verbatim>\<open>segments[0]\<close> raises: the code has no check for an empty sequence and no error of its
  own for it.
\<close>

theorem C2_empty_segments_IndexError:
  assumes "segments (geometry self) = []"
  shows "group_segments self = Inl (IndexError ''index 0 is out of bounds for axis 0 with size 0'')
    \<and> fst (toVTK self) = Inl (IndexError ''index 0 is out of bounds for axis 0 with size 0'')"
  using assms by (simp add: toVTK_empty group_segments_empty)

text \<open>The element \<open>no_segments\<close> has no segment, and its export fails in this way.\<close>

theorem C2_empty_segments_IndexError_witness:
  "segments (geometry no_segments) = []
   \<and> fst (toVTK no_segments) = Inl (IndexError ''index 0 is out of bounds for axis 0 with size 0'')"
  using C2_empty_segments_IndexError [of no_segments] by (simp add: no_segments_def)

text \<open>
  C2 as stated fails: on an element without vertices and segments the export does read the
  first segment, and what it raises is the \<^verbatim>\<open>IndexError\<close> of that read.
\<close>

theorem C2_first_segment_read_counterexample:
  "fst (toVTK \<lparr>geometry = \<lparr>vertices = [] :: int vertex list, segments = []\<rparr>,
               data = [] :: int ProjectElementData list, subtype = ''line''\<rparr>)
   = Inl (IndexError ''index 0 is out of bounds for axis 0 with size 0'')"
  by (simp add: toVTK_def group_segments_def)

text \<open>
  C3 on the element \<open>vertex_attribute\<close>: its attribute \<^verbatim>\<open>elevation\<close> is declared on the
  vertices, and the export attaches it to the cell data; the point data stays empty.
\<close>

theorem C3_vertex_attribute_in_cell_data:
  "fst (toVTK vertex_attribute) =
   Inr \<lparr>Points = [(0, 0, 0), (1, 0, 0), (2, 0, 0)],
        Lines = [(0, 1), (1, 2)],
        CellData = [(''Line Index'', vtkIntArray [0, 0]),
                    (''elevation'', numpy_to_vtk [10, 20, 30])],
        PointData = []\<rparr>"
  by (simp add: vertex_attribute_def toVTK_def group_segments_def init_frame_def segment_step_def
      SetId_def vtkIdType_ok_def generate_output_def data_step_def nps_numpy_to_vtk_def
      vtkPolyData_new_def num_cells_def Let_def)

text \<open>
  C4, amended: the export does not verify the lengths of the attribute arrays. Two elements
  with the same segments whose attributes have the same element types, one by one, get the
  same outcome of the export, the same exception or a mesh each, whatever the lengths (and
  the values, names and locations) of the attribute arrays are: no length makes the export
  fail.
\<close>

theorem C4_export_ignores_lengths:
  assumes "segments (geometry self') = segments (geometry self)"
    and "map dtype (data self') = map dtype (data self)"
  shows "(\<forall>e. fst (toVTK self') = Inl e \<longleftrightarrow> fst (toVTK self) = Inl e)
    \<and> ((\<exists>m. fst (toVTK self') = Inr m) \<longleftrightarrow> (\<exists>m. fst (toVTK self) = Inr m))"
proof -
  have errs: "fst (toVTK self') = Inl e \<longleftrightarrow> fst (toVTK self) = Inl e" for e
    using assms by (rule toVTK_outcome)
  have "(\<exists>m. fst (toVTK self') = Inr m) \<longleftrightarrow> (\<exists>m. fst (toVTK self) = Inr m)"
  proof (cases "fst (toVTK self)")
    case (Inl e)
    with errs [of e] show ?thesis by simp
  next
    case (Inr m)
    show ?thesis
    proof (cases "fst (toVTK self')")
      case (Inl e)
      with errs [of e] Inr show ?thesis by simp
    next
      case Inr': (Inr m')
      with Inr show ?thesis by simp
    qed
  qed
  with errs show ?thesis by blast
qed

text \<open>
  The elements \<open>long_attribute\<close> and \<open>fitting_attribute\<close> differ only in the length of the
  attribute array; the export of the fitting one returns a mesh, and so does the export of
  the long one.
\<close>

theorem C4_export_ignores_lengths_witness:
  "segments (geometry long_attribute) = segments (geometry fitting_attribute)
   \<and> map dtype (data long_attribute) = map dtype (data fitting_attribute)
   \<and> length (array (hd (data long_attribute))) = 3
   \<and> length (array (hd (data fitting_attribute))) = 2
   \<and> (\<exists>m. fst (toVTK fitting_attribute) = Inr m)
   \<and> (\<exists>m. fst (toVTK long_attribute) = Inr m)"
proof -
  have sg: "segments (geometry long_attribute) = segments (geometry fitting_attribute)"
    and dt: "map dtype (data long_attribute) = map dtype (data fitting_attribute)"
    and ln: "length (array (hd (data long_attribute))) = 3"
      "length (array (hd (data fitting_attribute))) = 2"
    by (simp_all add: long_attribute_def fitting_attribute_def)
  have fit: "\<exists>m. fst (toVTK fitting_attribute) = Inr m"
    by (simp add: fitting_attribute_def toVTK_def group_segments_def init_frame_def
        segment_step_def SetId_def vtkIdType_ok_def generate_output_def data_step_def
        nps_numpy_to_vtk_def vtkPolyData_new_def num_cells_def Let_def)
  from C4_export_ignores_lengths [OF sg dt] fit
  have "\<exists>m. fst (toVTK long_attribute) = Inr m" by blast
  with sg dt ln fit show ?thesis by blast
qed

text \<open>
  C4 as stated fails on \<open>long_attribute\<close>: its attribute is located on the segments and has
  three values where \<open>location_length\<close> is two, and the export returns a mesh that holds the
  three values.
\<close>

theorem C4_length_mismatch_counterexample:
  "location (hd (data long_attribute)) = ''segments''
   \<and> length (array (hd (data long_attribute))) = 3
   \<and> location_length (geometry long_attribute) ''segments'' = 2
   \<and> fst (toVTK long_attribute) =
       Inr \<lparr>Points = [(0, 0, 0), (1, 0, 0), (2, 0, 0)],
            Lines = [(0, 1), (1, 2)],
            CellData = [(''Line Index'', vtkIntArray [0, 0]), (''grade'', numpy_to_vtk [4, 5, 6])],
            PointData = []\<rparr>"
  by (simp add: long_attribute_def toVTK_def group_segments_def init_frame_def segment_step_def
      SetId_def vtkIdType_ok_def generate_output_def data_step_def nps_numpy_to_vtk_def
      vtkPolyData_new_def num_cells_def location_length_def Let_def)





text \<open>
  C9: the element as the call of \<open>toVTK\<close> leaves it is the element it was called on, whether
  the call returns a mesh or raises; in particular the vertex sequence, the segment sequence
  and every attribute array are unchanged.
\<close>

theorem C9_export_leaves_element_unchanged:
  "snd (toVTK self) = self
   \<and> vertices (geometry (snd (toVTK self))) = vertices (geometry self)
   \<and> segments (geometry (snd (toVTK self))) = segments (geometry self)
   \<and> map array (data (snd (toVTK self))) = map array (data self)"
  using snd_toVTK [of self] by simp

end
